theory Spec2Isabelle
  imports Main "HOL-Library.Char_ord" "HOL-Library.List_Lexorder" "HOL-Library.AList"
begin

section \<open>Values, exceptions and effects\<close>

text \<open>
  The module \<^verbatim>\<open>lib/crypto/trc.py\<close> moves JSON values between a file, the fields of a
  \<^verbatim>\<open>TRC\<close> object and the text that is signed. A JSON value is modelled as Python holds
  it after \<^verbatim>\<open>json.load\<close>: a dictionary is an association list in iteration order
  (a Python dictionary has no duplicate keys: see \<open>wf_json\<close>), an integer is unbounded.
  Floating point numbers are left out. A Python \<^verbatim>\<open>str\<close> and a Python \<^verbatim>\<open>bytes\<close> are both
  lists of \<open>char\<close>; a \<open>char\<close> has 256 values, so code points above 255 are outside the model.
\<close>

type_synonym bytes = string

datatype json =
    JNull
  | JBool bool
  | JInt int
  | JStr string
  | JList "json list"
  | JObj "(string \<times> json) list"

datatype exn =
    OSError
  | ValueError
  | KeyError string
  | TypeError
  | AttributeError
  | UnicodeEncodeError
  | UnicodeDecodeError
  | BinasciiError

text \<open>
  What a call does besides returning: the records handed to \<^verbatim>\<open>logging\<close>, the calls of
  \<^verbatim>\<open>get_public_key\<close> and the calls of the signature primitive
  \<^verbatim>\<open>crypto_sign_ed25519_open(signature, public_key)\<close>, in the order they happen.
\<close>

datatype event =
    LogError string
  | LogWarning string
  | GetPublicKey string
  | SignOpen bytes bytes

text \<open>
  The functions the module imports and does not define. \<open>None\<close> stands for the exception
  the function raises: \<^verbatim>\<open>binascii.Error\<close> for \<^verbatim>\<open>base64.standard_b64decode\<close>,
  \<^verbatim>\<open>ValueError\<close> for \<^verbatim>\<open>json.loads\<close> and \<^verbatim>\<open>json.load\<close>, any exception for
  \<^verbatim>\<open>crypto_sign_ed25519_open\<close>, \<^verbatim>\<open>OSError\<close> for \<^verbatim>\<open>open\<close>.
\<close>

record lib =
  standard_b64decode :: "bytes \<Rightarrow> bytes option"
  loads :: "string \<Rightarrow> json option"
  crypto_sign_ed25519_open :: "bytes \<Rightarrow> bytes \<Rightarrow> bytes option"
  open_read :: "string \<Rightarrow> string option"

section \<open>\<^verbatim>\<open>str.encode('ascii')\<close> and \<^verbatim>\<open>bytes.decode('ascii')\<close>\<close>

definition is_ascii :: "string \<Rightarrow> bool" where
  "is_ascii s = list_all (\<lambda>c. (of_char c :: nat) < 128) s"

definition encode_ascii :: "string \<Rightarrow> exn + bytes" where
  "encode_ascii s = (if is_ascii s then Inr s else Inl UnicodeEncodeError)"

definition decode_ascii :: "bytes \<Rightarrow> exn + string" where
  "decode_ascii b = (if is_ascii b then Inr b else Inl UnicodeDecodeError)"

section \<open>\<^verbatim>\<open>json.dumps(obj, sort_keys=..., indent=4)\<close>\<close>

text \<open>
  The encoder of the standard library (\<^verbatim>\<open>json.encoder\<close>, Python 3.4 and later, where an
  indentation makes the item separator a bare comma), with \<^verbatim>\<open>ensure_ascii\<close> at its
  default: every character outside the range from space to tilde is escaped.
\<close>

definition hexdigit :: "nat \<Rightarrow> char" where
  "hexdigit d = ''0123456789abcdef'' ! (d mod 16)"

definition hex4 :: "nat \<Rightarrow> string" where
  "hex4 n = [hexdigit (n div 4096), hexdigit (n div 256), hexdigit (n div 16), hexdigit n]"

definition escape_char :: "char \<Rightarrow> string" where
  "escape_char c =
     (if c = CHR 0x5C then [CHR 0x5C, CHR 0x5C]
      else if c = CHR 0x22 then [CHR 0x5C, CHR 0x22]
      else if c = CHR 0x08 then [CHR 0x5C, CHR ''b'']
      else if c = CHR 0x0C then [CHR 0x5C, CHR ''f'']
      else if c = CHR 0x0A then [CHR 0x5C, CHR ''n'']
      else if c = CHR 0x0D then [CHR 0x5C, CHR ''r'']
      else if c = CHR 0x09 then [CHR 0x5C, CHR ''t'']
      else if 32 \<le> (of_char c :: nat) \<and> (of_char c :: nat) \<le> 126 then [c]
      else [CHR 0x5C, CHR ''u''] @ hex4 (of_char c))"

definition encode_basestring_ascii :: "string \<Rightarrow> string" where
  "encode_basestring_ascii s = [CHR 0x22] @ concat (map escape_char s) @ [CHR 0x22]"

function digits :: "int \<Rightarrow> string" where
  "digits n =
     (if n < 10 then [hexdigit (nat n)] else digits (n div 10) @ [hexdigit (nat (n mod 10))])"
  by pat_completeness auto

termination
  by (relation "measure nat") auto

declare digits.simps [simp del]

definition int_repr :: "int \<Rightarrow> string" where
  "int_repr i = (if i < 0 then CHR ''-'' # digits (- i) else digits i)"

fun join :: "string \<Rightarrow> string list \<Rightarrow> string" where
  "join sep [] = []"
| "join sep [x] = x"
| "join sep (x # y # ys) = x @ sep @ join sep (y # ys)"

definition newline_indent :: "nat \<Rightarrow> string" where
  "newline_indent level = CHR 0x0A # replicate (4 * level) CHR '' ''"

function iterencode :: "bool \<Rightarrow> nat \<Rightarrow> json \<Rightarrow> string" where
  "iterencode sort_keys level JNull = ''null''"
| "iterencode sort_keys level (JBool b) = (if b then ''true'' else ''false'')"
| "iterencode sort_keys level (JInt i) = int_repr i"
| "iterencode sort_keys level (JStr s) = encode_basestring_ascii s"
| "iterencode sort_keys level (JList vs) =
     (if vs = [] then ''[]''
      else ''['' @ newline_indent (Suc level)
           @ join (CHR '','' # newline_indent (Suc level)) (map (iterencode sort_keys (Suc level)) vs)
           @ newline_indent level @ '']'')"
| "iterencode sort_keys level (JObj kvs) =
     (if kvs = [] then ''{}''
      else ''{'' @ newline_indent (Suc level)
           @ join (CHR '','' # newline_indent (Suc level))
               (map (\<lambda>kv. encode_basestring_ascii (fst kv) @ '': '' @ iterencode sort_keys (Suc level) (snd kv))
                    (if sort_keys then sort_key fst kvs else kvs))
           @ newline_indent level @ ''}'')"
  by pat_completeness auto

termination
proof (relation "measure (\<lambda>(sort_keys, level, obj). size obj)")
  fix vs :: "json list" and v
  assume "v \<in> set vs"
  then have "size v < Suc (size_list size vs)"
    by (induction vs) auto
  then show "((sort_keys, Suc level, v), (sort_keys, level, JList vs))
      \<in> measure (\<lambda>(sort_keys, level, obj). size obj)" for sort_keys :: bool and level
    by simp
next
  fix kvs :: "(string \<times> json) list" and kv
  fix sort_keys :: bool
  assume "kv \<in> set (if sort_keys then sort_key fst kvs else kvs)"
  then have "kv \<in> set kvs"
    by (simp split: if_splits)
  then have "size (snd kv) < Suc (size_list (size_prod (\<lambda>_. 0) size) kvs)"
    by (induction kvs) (auto simp: less_Suc_eq_le)
  then show "((sort_keys, Suc level, snd kv), (sort_keys, level, JObj kvs))
      \<in> measure (\<lambda>(sort_keys, level, obj). size obj)" for level
    by simp
qed simp

definition dumps :: "bool \<Rightarrow> json \<Rightarrow> string" where
  "dumps sort_keys obj = iterencode sort_keys 0 obj"

section \<open>The class \<^verbatim>\<open>TRC\<close>\<close>

text \<open>
  The instance variables, with the types the class docstring gives them: five integers,
  three dictionaries of certificates (subject to certificate text), the dictionary of
  policies, five strings and the dictionary of signatures (signer to signature text).
  A document that stores a value of another type in a field is outside the model.
\<close>

record TRC =
  isd_id :: int
  version :: int
  time :: int
  core_quorum :: int
  trc_quorum :: int
  core_isps :: "(string \<times> string) list"
  root_cas :: "(string \<times> string) list"
  core_ads :: "(string \<times> string) list"
  policies :: "(string \<times> json) list"
  registry_server_addr :: string
  registry_server_cert :: string
  root_dns_server_addr :: string
  root_dns_server_cert :: string
  trc_server_addr :: string
  signatures :: "(string \<times> string) list"

text \<open>The state \<^verbatim>\<open>__init__\<close> sets up before it looks at its argument.\<close>

definition empty_TRC :: TRC where
  "empty_TRC =
     \<lparr>isd_id = 0, version = 0, time = 0, core_quorum = 0, trc_quorum = 0,
      core_isps = [], root_cas = [], core_ads = [], policies = [],
      registry_server_addr = [], registry_server_cert = [],
      root_dns_server_addr = [], root_dns_server_cert = [],
      trc_server_addr = [], signatures = []\<rparr>"

definition str_dict :: "(string \<times> string) list \<Rightarrow> json" where
  "str_dict kvs = JObj (map (\<lambda>kv. (fst kv, JStr (snd kv))) kvs)"

definition get_trc_dict :: "TRC \<Rightarrow> bool \<Rightarrow> json" where
  "get_trc_dict self with_signatures =
     JObj ([(''isd_id'', JInt (isd_id self)),
            (''version'', JInt (version self)),
            (''time'', JInt (time self)),
            (''core_quorum'', JInt (core_quorum self)),
            (''trc_quorum'', JInt (trc_quorum self)),
            (''core_isps'', str_dict (core_isps self)),
            (''root_cas'', str_dict (root_cas self)),
            (''core_ads'', str_dict (core_ads self)),
            (''policies'', JObj (policies self)),
            (''registry_server_addr'', JStr (registry_server_addr self)),
            (''registry_server_cert'', JStr (registry_server_cert self)),
            (''root_dns_server_addr'', JStr (root_dns_server_addr self)),
            (''root_dns_server_cert'', JStr (root_dns_server_cert self)),
            (''trc_server_addr'', JStr (trc_server_addr self))]
           @ (if with_signatures then [(''signatures'', str_dict (signatures self))] else []))"

text \<open>\<^verbatim>\<open>__str__\<close>: the dictionary with the signatures, dumped with sorted keys.\<close>

definition to_str :: "TRC \<Rightarrow> string" where
  "to_str self = dumps True (get_trc_dict self True)"

text \<open>
  \<^verbatim>\<open>from_values\<close>: a fresh instance with every field assigned; \<open>now\<close> is the value of
  \<^verbatim>\<open>int(time.time())\<close> at the call.
\<close>

definition from_values ::
  "int \<Rightarrow> int \<Rightarrow> int \<Rightarrow> int \<Rightarrow> int \<Rightarrow> (string \<times> string) list \<Rightarrow> (string \<times> string) list
   \<Rightarrow> (string \<times> string) list \<Rightarrow> (string \<times> json) list \<Rightarrow> string \<Rightarrow> string \<Rightarrow> string
   \<Rightarrow> string \<Rightarrow> string \<Rightarrow> (string \<times> string) list \<Rightarrow> TRC" where
  "from_values now isd_id' version' core_quorum' trc_quorum' core_isps' root_cas' core_ads'
     policies' registry_server_addr' registry_server_cert' root_dns_server_addr'
     root_dns_server_cert' trc_server_addr' signatures' =
     empty_TRC
       \<lparr>isd_id := isd_id', version := version', time := now,
        core_quorum := core_quorum', trc_quorum := trc_quorum',
        core_isps := core_isps', root_cas := root_cas', core_ads := core_ads',
        policies := policies',
        registry_server_addr := registry_server_addr',
        registry_server_cert := registry_server_cert',
        root_dns_server_addr := root_dns_server_addr',
        root_dns_server_cert := root_dns_server_cert',
        trc_server_addr := trc_server_addr', signatures := signatures'\<rparr>"

section \<open>Raising and propagating\<close>

definition bind :: "exn + 'a \<Rightarrow> ('a \<Rightarrow> exn + 'b) \<Rightarrow> exn + 'b" where
  "bind r f = (case r of Inl e \<Rightarrow> Inl e | Inr x \<Rightarrow> f x)"

definition or_raise :: "exn \<Rightarrow> 'a option \<Rightarrow> exn + 'a" where
  "or_raise e r = (case r of None \<Rightarrow> Inl e | Some x \<Rightarrow> Inr x)"

text \<open>\<^verbatim>\<open>d[key]\<close> on a dictionary of the object.\<close>

definition getitem :: "(string \<times> 'a) list \<Rightarrow> string \<Rightarrow> exn + 'a" where
  "getitem d k = or_raise (KeyError k) (map_of d k)"

text \<open>
  \<^verbatim>\<open>v[key]\<close> with a string key on a value that \<^verbatim>\<open>json.loads\<close> returned: only a dictionary
  accepts it, a list or a string wants an integer index and the other values have no
  subscript at all.
\<close>

fun subscript :: "json \<Rightarrow> string \<Rightarrow> exn + json" where
  "subscript (JObj kvs) k = getitem kvs k"
| "subscript v k = Inl TypeError"

text \<open>\<^verbatim>\<open>v.encode('ascii')\<close>: only a string has the method.\<close>

fun encode_value :: "json \<Rightarrow> exn + bytes" where
  "encode_value (JStr s) = encode_ascii s"
| "encode_value v = Inl AttributeError"

section \<open>\<^verbatim>\<open>get_public_key\<close>\<close>

definition get_public_key :: "lib \<Rightarrow> TRC \<Rightarrow> string \<Rightarrow> (exn + bytes) \<times> event list" where
  "get_public_key L self subject =
     (if subject \<notin> set (map fst (core_ads self))
      then (Inr [], [LogWarning ''The public key could not be found.''])
      else
        (bind (getitem (core_ads self) subject) (\<lambda>blob.
         bind (encode_ascii blob) (\<lambda>subject_cert.
         bind (or_raise BinasciiError (standard_b64decode L subject_cert)) (\<lambda>raw.
         bind (decode_ascii raw) (\<lambda>text.
         bind (or_raise ValueError (loads L text)) (\<lambda>cert.
         bind (subscript cert ''subject_pub_key'') (\<lambda>field.
         bind (encode_value field) (\<lambda>public_key.
         or_raise BinasciiError (standard_b64decode L public_key)))))))),
         []))"

section \<open>\<^verbatim>\<open>verify\<close>\<close>

text \<open>
  The message is dumped once; the loop then takes the signers in the iteration order of
  \<^verbatim>\<open>self.signatures\<close>. Only the call of the primitive is inside the \<^verbatim>\<open>try\<close>: what
  \<^verbatim>\<open>get_public_key\<close> and the decoding of the signature raise leaves \<^verbatim>\<open>verify\<close>.
\<close>

text \<open>The two lines that turn the stored signature of \<open>signer\<close> into bytes.\<close>

definition sig_to_verify :: "lib \<Rightarrow> TRC \<Rightarrow> string \<Rightarrow> exn + bytes" where
  "sig_to_verify L self signer =
     bind (getitem (signatures self) signer) (\<lambda>s.
     bind (encode_ascii s) (\<lambda>b.
     or_raise BinasciiError (standard_b64decode L b)))"

fun verify_loop :: "lib \<Rightarrow> TRC \<Rightarrow> bytes \<Rightarrow> string list \<Rightarrow> (exn + bool) \<times> event list" where
  "verify_loop L self data_to_verify [] = (Inr True, [])"
| "verify_loop L self data_to_verify (signer # rest) =
     (if signer \<notin> set (map fst (core_ads self))
      then (Inr False, [LogWarning ''A signature could not be verified.''])
      else
        (case get_public_key L self signer of
           (Inl e, evs) \<Rightarrow> (Inl e, GetPublicKey signer # evs)
         | (Inr public_key, evs) \<Rightarrow>
             (case sig_to_verify L self signer of
                Inl e \<Rightarrow> (Inl e, GetPublicKey signer # evs)
              | Inr signature_bytes \<Rightarrow>
                  (case crypto_sign_ed25519_open L (signature_bytes @ data_to_verify) public_key of
                     None \<Rightarrow>
                       (Inr False,
                        GetPublicKey signer # evs
                        @ [SignOpen (signature_bytes @ data_to_verify) public_key,
                           LogWarning ''A signature is not valid.''])
                   | Some _ \<Rightarrow>
                       (fst (verify_loop L self data_to_verify rest),
                        GetPublicKey signer # evs
                        @ [SignOpen (signature_bytes @ data_to_verify) public_key]
                        @ snd (verify_loop L self data_to_verify rest))))))"

definition verify :: "lib \<Rightarrow> TRC \<Rightarrow> (exn + bool) \<times> event list" where
  "verify L self =
     (case encode_ascii (dumps True (get_trc_dict self False)) of
        Inl e \<Rightarrow> (Inl e, [])
      | Inr data_to_verify \<Rightarrow> verify_loop L self data_to_verify (map fst (signatures self)))"

section \<open>\<^verbatim>\<open>parse\<close> and \<^verbatim>\<open>__init__\<close>\<close>

text \<open>
  How a call ends: it returns, it raises, or it has stored a value whose type is not the
  one the record gives the field (Python stores it all the same; the model stops there).
\<close>

datatype status = Returned | Raised exn | Outside_model

fun as_int :: "json \<Rightarrow> int option" where
  "as_int (JInt i) = Some i"
| "as_int v = None"

fun as_str :: "json \<Rightarrow> string option" where
  "as_str (JStr s) = Some s"
| "as_str v = None"

fun as_dict :: "json \<Rightarrow> (string \<times> json) list option" where
  "as_dict (JObj kvs) = Some kvs"
| "as_dict v = None"

fun as_str_dict :: "json \<Rightarrow> (string \<times> string) list option" where
  "as_str_dict (JObj kvs) =
     (if list_all (\<lambda>kv. as_str (snd kv) \<noteq> None) kvs
      then Some (map (\<lambda>kv. (fst kv, the (as_str (snd kv)))) kvs) else None)"
| "as_str_dict v = None"

text \<open>The fifteen assignments of \<^verbatim>\<open>parse\<close>, in the order of the source.\<close>

definition assignments :: "(string \<times> (json \<Rightarrow> TRC \<Rightarrow> TRC option)) list" where
  "assignments =
     [(''isd_id'', \<lambda>v self. map_option (\<lambda>x. self\<lparr>isd_id := x\<rparr>) (as_int v)),
      (''version'', \<lambda>v self. map_option (\<lambda>x. self\<lparr>version := x\<rparr>) (as_int v)),
      (''time'', \<lambda>v self. map_option (\<lambda>x. self\<lparr>time := x\<rparr>) (as_int v)),
      (''core_quorum'', \<lambda>v self. map_option (\<lambda>x. self\<lparr>core_quorum := x\<rparr>) (as_int v)),
      (''trc_quorum'', \<lambda>v self. map_option (\<lambda>x. self\<lparr>trc_quorum := x\<rparr>) (as_int v)),
      (''core_isps'', \<lambda>v self. map_option (\<lambda>x. self\<lparr>core_isps := x\<rparr>) (as_str_dict v)),
      (''root_cas'', \<lambda>v self. map_option (\<lambda>x. self\<lparr>root_cas := x\<rparr>) (as_str_dict v)),
      (''core_ads'', \<lambda>v self. map_option (\<lambda>x. self\<lparr>core_ads := x\<rparr>) (as_str_dict v)),
      (''policies'', \<lambda>v self. map_option (\<lambda>x. self\<lparr>policies := x\<rparr>) (as_dict v)),
      (''registry_server_addr'',
         \<lambda>v self. map_option (\<lambda>x. self\<lparr>registry_server_addr := x\<rparr>) (as_str v)),
      (''registry_server_cert'',
         \<lambda>v self. map_option (\<lambda>x. self\<lparr>registry_server_cert := x\<rparr>) (as_str v)),
      (''root_dns_server_addr'',
         \<lambda>v self. map_option (\<lambda>x. self\<lparr>root_dns_server_addr := x\<rparr>) (as_str v)),
      (''root_dns_server_cert'',
         \<lambda>v self. map_option (\<lambda>x. self\<lparr>root_dns_server_cert := x\<rparr>) (as_str v)),
      (''trc_server_addr'', \<lambda>v self. map_option (\<lambda>x. self\<lparr>trc_server_addr := x\<rparr>) (as_str v)),
      (''signatures'', \<lambda>v self. map_option (\<lambda>x. self\<lparr>signatures := x\<rparr>) (as_str_dict v))]"

text \<open>
  One assignment \<^verbatim>\<open>self.f = trc['f']\<close> after the other: a key that is missing raises
  \<^verbatim>\<open>KeyError\<close> there, with the earlier assignments done.
\<close>

fun assign :: "(string \<times> (json \<Rightarrow> TRC \<Rightarrow> TRC option)) list \<Rightarrow> (string \<times> json) list \<Rightarrow> TRC
    \<Rightarrow> status \<times> TRC" where
  "assign [] trc self = (Returned, self)"
| "assign ((k, store) # rest) trc self =
     (case map_of trc k of
        None \<Rightarrow> (Raised (KeyError k), self)
      | Some v \<Rightarrow>
          (case store v self of
             None \<Rightarrow> (Outside_model, self)
           | Some self' \<Rightarrow> assign rest trc self'))"

text \<open>
  \<^verbatim>\<open>parse\<close>: only \<^verbatim>\<open>open\<close> and \<^verbatim>\<open>json.load\<close> are inside the \<^verbatim>\<open>try\<close>, and
  \<^verbatim>\<open>OSError\<close> is not among the exceptions it catches. A value that is not a dictionary
  has no string subscript: the first assignment raises \<^verbatim>\<open>TypeError\<close>.
\<close>

definition parse :: "lib \<Rightarrow> string \<Rightarrow> TRC \<Rightarrow> status \<times> TRC \<times> event list" where
  "parse L trc_file self =
     (case open_read L trc_file of
        None \<Rightarrow> (Raised OSError, self, [])
      | Some text \<Rightarrow>
          (case loads L text of
             None \<Rightarrow> (Returned, self, [LogError ''TRC: JSON format error.''])
           | Some (JObj trc) \<Rightarrow> (fst (assign assignments trc self), snd (assign assignments trc self), [])
           | Some _ \<Rightarrow> (Raised TypeError, self, [])))"

text \<open>\<^verbatim>\<open>TRC(trc_file)\<close>: an empty string is false, like \<^verbatim>\<open>None\<close>.\<close>

definition init :: "lib \<Rightarrow> string option \<Rightarrow> status \<times> TRC \<times> event list" where
  "init L trc_file =
     (case trc_file of
        None \<Rightarrow> (Returned, empty_TRC, [])
      | Some f \<Rightarrow> if f = [] then (Returned, empty_TRC, []) else parse L f empty_TRC)"

section \<open>A reference instance of the imported functions\<close>

text \<open>
  The theorems below hold for every \<open>lib\<close>. To run the module on concrete documents, here
  is one instance: base64 of RFC 4648 with padding (it rejects what is not in the
  alphabet, where Python skips it), the JSON grammar without floating point numbers and
  without code points above 255, and in place of Ed25519 a primitive that accepts a blob
  when it starts with the public key reversed.
\<close>


definition b64_value :: "char \<Rightarrow> nat option" where
  "b64_value c =
     (let n = (of_char c :: nat) in
      if 65 \<le> n \<and> n \<le> 90 then Some (n - 65)
      else if 97 \<le> n \<and> n \<le> 122 then Some (n - 71)
      else if 48 \<le> n \<and> n \<le> 57 then Some (n + 4)
      else if c = CHR ''+'' then Some 62
      else if c = CHR ''/'' then Some 63
      else None)"

definition byte :: "nat \<Rightarrow> char" where
  "byte n = char_of (n mod 256)"

fun b64_quads :: "string \<Rightarrow> bytes option" where
  "b64_quads [] = Some []"
| "b64_quads (a # b # c # d # rest) =
     (case (b64_value a, b64_value b) of
        (Some x, Some y) \<Rightarrow>
          if c = CHR ''='' \<and> d = CHR ''='' \<and> rest = [] then Some [byte (x * 4 + y div 16)]
          else (case b64_value c of
                  None \<Rightarrow> None
                | Some z \<Rightarrow>
                    if d = CHR ''='' \<and> rest = []
                    then Some [byte (x * 4 + y div 16), byte (y * 16 + z div 4)]
                    else (case b64_value d of
                            None \<Rightarrow> None
                          | Some w \<Rightarrow>
                              map_option
                                (\<lambda>r. byte (x * 4 + y div 16) # byte (y * 16 + z div 4)
                                      # byte (z * 64 + w) # r)
                                (b64_quads rest)))
      | _ \<Rightarrow> None)"
| "b64_quads _ = None"

definition is_ws :: "char \<Rightarrow> bool" where
  "is_ws c = (c = CHR '' '' \<or> c = CHR 0x09 \<or> c = CHR 0x0A \<or> c = CHR 0x0D)"

definition skip_ws :: "string \<Rightarrow> string" where
  "skip_ws s = dropWhile is_ws s"

definition hex_value :: "char \<Rightarrow> nat option" where
  "hex_value c =
     (let n = (of_char c :: nat) in
      if 48 \<le> n \<and> n \<le> 57 then Some (n - 48)
      else if 97 \<le> n \<and> n \<le> 102 then Some (n - 87)
      else if 65 \<le> n \<and> n \<le> 70 then Some (n - 55)
      else None)"

definition unescape :: "char \<Rightarrow> char option" where
  "unescape e =
     (if e = CHR 0x22 then Some (CHR 0x22)
      else if e = CHR 0x5C then Some (CHR 0x5C)
      else if e = CHR ''/'' then Some (CHR ''/'')
      else if e = CHR ''b'' then Some (CHR 0x08)
      else if e = CHR ''f'' then Some (CHR 0x0C)
      else if e = CHR ''n'' then Some (CHR 0x0A)
      else if e = CHR ''r'' then Some (CHR 0x0D)
      else if e = CHR ''t'' then Some (CHR 0x09)
      else None)"

fun scan_string :: "string \<Rightarrow> (string \<times> string) option" where
  "scan_string [] = None"
| "scan_string (c # s) =
     (if c = CHR 0x22 then Some ([], s)
      else if c = CHR 0x5C then
        (case s of
           [] \<Rightarrow> None
         | e # s1 \<Rightarrow>
             if e = CHR ''u'' then
               (case s1 of
                  h1 # h2 # h3 # h4 # s2 \<Rightarrow>
                    (case (hex_value h1, hex_value h2, hex_value h3, hex_value h4) of
                       (Some a, Some b, Some c, Some d) \<Rightarrow>
                         if a = 0 \<and> b = 0
                         then map_option (\<lambda>r. (char_of (16 * c + d) # fst r, snd r)) (scan_string s2)
                         else None
                     | _ \<Rightarrow> None)
                | _ \<Rightarrow> None)
             else
               (case unescape e of
                  None \<Rightarrow> None
                | Some c' \<Rightarrow> map_option (\<lambda>r. (c' # fst r, snd r)) (scan_string s1)))
      else if (of_char c :: nat) < 32 then None
      else map_option (\<lambda>r. (c # fst r, snd r)) (scan_string s))"

definition is_digit :: "char \<Rightarrow> bool" where
  "is_digit c = (48 \<le> (of_char c :: nat) \<and> (of_char c :: nat) \<le> 57)"

definition digits_value :: "string \<Rightarrow> int" where
  "digits_value ds = foldl (\<lambda>n c. 10 * n + ((of_char c :: int) - 48)) 0 ds"

definition scan_nat :: "string \<Rightarrow> (int \<times> string) option" where
  "scan_nat s =
     (let ds = takeWhile is_digit s; rest = dropWhile is_digit s in
      if ds = [] \<or> (hd ds = CHR ''0'' \<and> tl ds \<noteq> []) then None
      else if rest \<noteq> [] \<and> (hd rest = CHR ''.'' \<or> hd rest = CHR ''e'' \<or> hd rest = CHR ''E'') then None
      else Some (digits_value ds, rest))"

definition scan_int :: "string \<Rightarrow> (int \<times> string) option" where
  "scan_int s =
     (case s of
        [] \<Rightarrow> None
      | c # r \<Rightarrow>
          if c = CHR ''-'' then map_option (\<lambda>p. (- fst p, snd p)) (scan_nat r)
          else scan_nat s)"

definition starts_with :: "string \<Rightarrow> string \<Rightarrow> bool" where
  "starts_with p s = (take (length p) s = p)"

definition dict_of_pairs :: "(string \<times> json) list \<Rightarrow> (string \<times> json) list" where
  "dict_of_pairs kvs = foldl (\<lambda>d kv. AList.update (fst kv) (snd kv) d) [] kvs"

fun scan_value :: "nat \<Rightarrow> string \<Rightarrow> (json \<times> string) option"
  and scan_elems :: "nat \<Rightarrow> string \<Rightarrow> (json list \<times> string) option"
  and scan_members :: "nat \<Rightarrow> string \<Rightarrow> ((string \<times> json) list \<times> string) option" where
  "scan_value 0 s = None"
| "scan_value (Suc n) s =
     (case skip_ws s of
        [] \<Rightarrow> None
      | c # r \<Rightarrow>
          if c = CHR 0x22 then map_option (\<lambda>p. (JStr (fst p), snd p)) (scan_string r)
          else if c = CHR ''{'' then
            (if starts_with ''}'' (skip_ws r) then Some (JObj [], tl (skip_ws r))
             else map_option (\<lambda>p. (JObj (dict_of_pairs (fst p)), snd p)) (scan_members n (skip_ws r)))
          else if c = CHR ''['' then
            (if starts_with '']'' (skip_ws r) then Some (JList [], tl (skip_ws r))
             else map_option (\<lambda>p. (JList (fst p), snd p)) (scan_elems n r))
          else if starts_with ''null'' (c # r) then Some (JNull, drop 4 (c # r))
          else if starts_with ''true'' (c # r) then Some (JBool True, drop 4 (c # r))
          else if starts_with ''false'' (c # r) then Some (JBool False, drop 5 (c # r))
          else map_option (\<lambda>p. (JInt (fst p), snd p)) (scan_int (c # r)))"
| "scan_elems 0 s = None"
| "scan_elems (Suc n) s =
     (case scan_value n s of
        None \<Rightarrow> None
      | Some (v, r) \<Rightarrow>
          (case skip_ws r of
             [] \<Rightarrow> None
           | c # r1 \<Rightarrow>
               if c = CHR '','' then map_option (\<lambda>p. (v # fst p, snd p)) (scan_elems n r1)
               else if c = CHR '']'' then Some ([v], r1)
               else None))"
| "scan_members 0 s = None"
| "scan_members (Suc n) s =
     (case s of
        [] \<Rightarrow> None
      | q # r \<Rightarrow>
          if q \<noteq> CHR 0x22 then None
          else
            (case scan_string r of
               None \<Rightarrow> None
             | Some (k, r1) \<Rightarrow>
                 (case skip_ws r1 of
                    [] \<Rightarrow> None
                  | c # r2 \<Rightarrow>
                      if c \<noteq> CHR '':'' then None
                      else
                        (case scan_value n r2 of
                           None \<Rightarrow> None
                         | Some (v, r3) \<Rightarrow>
                             (case skip_ws r3 of
                                [] \<Rightarrow> None
                              | d # r4 \<Rightarrow>
                                  if d = CHR '','' then
                                    map_option (\<lambda>p. ((k, v) # fst p, snd p))
                                      (scan_members n (skip_ws r4))
                                  else if d = CHR ''}'' then Some ([(k, v)], r4)
                                  else None)))))"

definition ref_loads :: "string \<Rightarrow> json option" where
  "ref_loads s =
     (case scan_value (Suc (length s)) s of
        None \<Rightarrow> None
      | Some (v, r) \<Rightarrow> if skip_ws r = [] then Some v else None)"

definition toy_sign_open :: "bytes \<Rightarrow> bytes \<Rightarrow> bytes option" where
  "toy_sign_open signed public_key =
     (if public_key \<noteq> [] \<and> take (length public_key) signed = rev public_key
      then Some (drop (length public_key) signed) else None)"

definition ref_lib :: "(string \<times> string) list \<Rightarrow> lib" where
  "ref_lib files =
     \<lparr>standard_b64decode = b64_quads, loads = ref_loads,
      crypto_sign_ed25519_open = toy_sign_open, open_read = map_of files\<rparr>"

section \<open>Notions of the specification\<close>

text \<open>The message of \<^verbatim>\<open>verify\<close>: the dictionary without the signatures, dumped.\<close>

definition data_to_verify :: "TRC \<Rightarrow> bytes" where
  "data_to_verify self = dumps True (get_trc_dict self False)"

text \<open>
  A signature that is present is valid when its signer is a core AD, the key of the signer
  and the signature decode, and the primitive accepts the signature followed by the message.
\<close>

definition signature_valid :: "lib \<Rightarrow> TRC \<Rightarrow> string \<Rightarrow> bool" where
  "signature_valid L self signer =
     (signer \<in> set (map fst (core_ads self)) \<and>
      (case (fst (get_public_key L self signer), sig_to_verify L self signer) of
         (Inr public_key, Inr signature_bytes) \<Rightarrow>
           crypto_sign_ed25519_open L (signature_bytes @ data_to_verify self) public_key \<noteq> None
       | _ \<Rightarrow> False))"


text \<open>
  The canonical serialisation in the words of the specification, in three steps: the
  fields of the document without its signatures (\<open>unsigned_fields\<close>), the keys of every
  dictionary put in lexicographic order (\<open>sort_json\<close>), and the value written out in
  the order it then has, every nesting level indented by four more spaces
  (\<open>canonical_text\<close>). None of the three uses \<open>get_trc_dict\<close> or \<open>iterencode\<close>.
\<close>

function sort_json :: "json \<Rightarrow> json" where
  "sort_json JNull = JNull"
| "sort_json (JBool b) = JBool b"
| "sort_json (JInt i) = JInt i"
| "sort_json (JStr s) = JStr s"
| "sort_json (JList vs) = JList (map sort_json vs)"
| "sort_json (JObj kvs) = JObj (sort_key fst (map (\<lambda>kv. (fst kv, sort_json (snd kv))) kvs))"
  by pat_completeness auto

termination
proof (relation "measure size")
  fix vs :: "json list" and v
  assume "v \<in> set vs"
  then have "size v < Suc (size_list size vs)"
    by (induction vs) auto
  then show "(v, JList vs) \<in> measure size"
    by simp
next
  fix kvs :: "(string \<times> json) list" and kv
  assume "kv \<in> set kvs"
  then have "size (snd kv) < Suc (size_list (size_prod (\<lambda>_. 0) size) kvs)"
    by (induction kvs) (auto simp: less_Suc_eq_le)
  then show "(snd kv, JObj kvs) \<in> measure size"
    by simp
qed simp

text \<open>A Python dictionary has each key once, at every level of the value.\<close>

function wf_json :: "json \<Rightarrow> bool" where
  "wf_json JNull = True"
| "wf_json (JBool b) = True"
| "wf_json (JInt i) = True"
| "wf_json (JStr s) = True"
| "wf_json (JList vs) = (\<forall>v \<in> set vs. wf_json v)"
| "wf_json (JObj kvs) = (distinct (map fst kvs) \<and> (\<forall>kv \<in> set kvs. wf_json (snd kv)))"
  by pat_completeness auto

termination
proof (relation "measure size")
  fix vs :: "json list" and v
  assume "v \<in> set vs"
  then have "size v < Suc (size_list size vs)"
    by (induction vs) auto
  then show "(v, JList vs) \<in> measure size"
    by simp
next
  fix kvs :: "(string \<times> json) list" and kv
  assume "kv \<in> set kvs"
  then have "size (snd kv) < Suc (size_list (size_prod (\<lambda>_. 0) size) kvs)"
    by (induction kvs) (auto simp: less_Suc_eq_le)
  then show "(snd kv, JObj kvs) \<in> measure size"
    by simp
qed simp

text \<open>
  Equality of two values as Python's \<^verbatim>\<open>==\<close> decides it for dictionaries and lists (the
  same number of keys, and each key of the left one in the right one with an equal value;
  the order of the keys plays no part), with \<^verbatim>\<open>True\<close> and \<^verbatim>\<open>1\<close> kept apart.
\<close>

function json_equal :: "json \<Rightarrow> json \<Rightarrow> bool" where
  "json_equal JNull w = (w = JNull)"
| "json_equal (JBool b) w = (w = JBool b)"
| "json_equal (JInt i) w = (w = JInt i)"
| "json_equal (JStr s) w = (w = JStr s)"
| "json_equal (JList vs) w =
     (case w of
        JList ws \<Rightarrow> length vs = length ws \<and> (\<forall>p \<in> set (zip vs ws). json_equal (fst p) (snd p))
      | _ \<Rightarrow> False)"
| "json_equal (JObj kvs) w =
     (case w of
        JObj kws \<Rightarrow>
          length kvs = length kws
          \<and> (\<forall>kv \<in> set kvs.
                case map_of kws (fst kv) of None \<Rightarrow> False | Some y \<Rightarrow> json_equal (snd kv) y)
      | _ \<Rightarrow> False)"
  by pat_completeness auto

termination
proof (relation "measure (\<lambda>(v, w). size v)")
  fix vs ws :: "json list" and p
  assume "p \<in> set (zip vs ws)"
  then have "fst p \<in> set vs"
    using set_zip_leftD [of "fst p" "snd p" vs ws] by simp
  then have "size (fst p) < Suc (size_list size vs)"
    by (induction vs) auto
  then show "((fst p, snd p), (JList vs, w)) \<in> measure (\<lambda>(v, w). size v)" for w
    by (simp add: case_prod_beta)
next
  fix kvs :: "(string \<times> json) list" and kv
  assume "kv \<in> set kvs"
  then have "size (snd kv) < Suc (size_list (size_prod (\<lambda>_. 0) size) kvs)"
    by (induction kvs) (auto simp: less_Suc_eq_le)
  then show "((snd kv, y), (JObj kvs, w)) \<in> measure (\<lambda>(v, w). size v)" for y w
    by simp
qed simp

text \<open>Every dictionary of the value lists its keys in ascending order.\<close>

function keys_sorted :: "json \<Rightarrow> bool" where
  "keys_sorted JNull = True"
| "keys_sorted (JBool b) = True"
| "keys_sorted (JInt i) = True"
| "keys_sorted (JStr s) = True"
| "keys_sorted (JList vs) = (\<forall>v \<in> set vs. keys_sorted v)"
| "keys_sorted (JObj kvs) = (sorted (map fst kvs) \<and> (\<forall>kv \<in> set kvs. keys_sorted (snd kv)))"
  by pat_completeness auto

termination
proof (relation "measure size")
  fix vs :: "json list" and v
  assume "v \<in> set vs"
  then have "size v < Suc (size_list size vs)"
    by (induction vs) auto
  then show "(v, JList vs) \<in> measure size"
    by simp
next
  fix kvs :: "(string \<times> json) list" and kv
  assume "kv \<in> set kvs"
  then have "size (snd kv) < Suc (size_list (size_prod (\<lambda>_. 0) size) kvs)"
    by (induction kvs) (auto simp: less_Suc_eq_le)
  then show "(snd kv, JObj kvs) \<in> measure size"
    by simp
qed simp

text \<open>
  The fields the signatures cover, as section 3 of the specification lists them: every
  field of the document except \<^verbatim>\<open>signatures\<close>; a certificate dictionary maps a subject
  to the certificate text.
\<close>

definition certificates :: "(string \<times> string) list \<Rightarrow> json" where
  "certificates entries = JObj (map (\<lambda>entry. (fst entry, JStr (snd entry))) entries)"

definition unsigned_fields :: "TRC \<Rightarrow> (string \<times> json) list" where
  "unsigned_fields self =
     [(''isd_id'', JInt (isd_id self)),
      (''version'', JInt (version self)),
      (''time'', JInt (time self)),
      (''core_quorum'', JInt (core_quorum self)),
      (''trc_quorum'', JInt (trc_quorum self)),
      (''core_isps'', certificates (core_isps self)),
      (''root_cas'', certificates (root_cas self)),
      (''core_ads'', certificates (core_ads self)),
      (''policies'', JObj (policies self)),
      (''registry_server_addr'', JStr (registry_server_addr self)),
      (''registry_server_cert'', JStr (registry_server_cert self)),
      (''root_dns_server_addr'', JStr (root_dns_server_addr self)),
      (''root_dns_server_cert'', JStr (root_dns_server_cert self)),
      (''trc_server_addr'', JStr (trc_server_addr self))]"

text \<open>
  The text of a value at nesting depth \<open>depth\<close>: every item of a list or dictionary on
  a line of its own that starts with \<open>4 * (depth + 1)\<close> spaces, the items separated by a
  comma at the end of the line, the closing bracket on a line that starts with
  \<open>4 * depth\<close> spaces; a key and its value separated by a colon and a space. The items
  are written in the order the value has them.
\<close>

definition indentation :: "nat \<Rightarrow> string" where
  "indentation depth = replicate (4 * depth) CHR '' ''"

fun comma_separated :: "string list \<Rightarrow> string" where
  "comma_separated [] = []"
| "comma_separated [line] = line"
| "comma_separated (line # lines) = line @ '','' @ comma_separated lines"

function canonical_text :: "nat \<Rightarrow> json \<Rightarrow> string" where
  "canonical_text depth JNull = ''null''"
| "canonical_text depth (JBool b) = (if b then ''true'' else ''false'')"
| "canonical_text depth (JInt i) = int_repr i"
| "canonical_text depth (JStr s) = encode_basestring_ascii s"
| "canonical_text depth (JList vs) =
     (if vs = [] then ''[]''
      else ''[''
           @ comma_separated
               (map (\<lambda>v. CHR 0x0A # indentation (Suc depth) @ canonical_text (Suc depth) v) vs)
           @ CHR 0x0A # indentation depth @ '']'')"
| "canonical_text depth (JObj kvs) =
     (if kvs = [] then ''{}''
      else ''{''
           @ comma_separated
               (map (\<lambda>kv. CHR 0x0A # indentation (Suc depth)
                           @ encode_basestring_ascii (fst kv) @ '': ''
                           @ canonical_text (Suc depth) (snd kv)) kvs)
           @ CHR 0x0A # indentation depth @ ''}'')"
  by pat_completeness auto

termination
proof (relation "measure (\<lambda>(depth, v). size v)")
  fix vs :: "json list" and v
  assume "v \<in> set vs"
  then have "size v < Suc (size_list size vs)"
    by (induction vs) auto
  then show "((Suc depth, v), (depth, JList vs)) \<in> measure (\<lambda>(depth, v). size v)" for depth
    by simp
next
  fix kvs :: "(string \<times> json) list" and kv
  assume "kv \<in> set kvs"
  then have "size (snd kv) < Suc (size_list (size_prod (\<lambda>_. 0) size) kvs)"
    by (induction kvs) (auto simp: less_Suc_eq_le)
  then show "((Suc depth, snd kv), (depth, JObj kvs)) \<in> measure (\<lambda>(depth, v). size v)" for depth
    by simp
qed simp

fun top_keys :: "json \<Rightarrow> string list" where
  "top_keys (JObj kvs) = map fst kvs"
| "top_keys v = []"

text \<open>
  The message the specification describes: the fields without the signatures, the keys
  sorted at every level, written with four spaces for each level.
\<close>

definition canonical_document :: "TRC \<Rightarrow> json" where
  "canonical_document self = sort_json (JObj (unsigned_fields self))"

definition canonical_message :: "TRC \<Rightarrow> bytes" where
  "canonical_message self = canonical_text 0 (canonical_document self)"

text \<open>
  What the specification has \<^verbatim>\<open>verify\<close> hand to the primitive for a signer: the
  base64-decoded signature followed by the canonical message, with the key of the signer.
\<close>

definition submission :: "lib \<Rightarrow> TRC \<Rightarrow> string \<Rightarrow> event option" where
  "submission L self signer =
     (case map_of (signatures self) signer of
        None \<Rightarrow> None
      | Some signature_b64 \<Rightarrow>
          (case standard_b64decode L signature_b64 of
             None \<Rightarrow> None
           | Some raw \<Rightarrow>
               (case fst (get_public_key L self signer) of
                  Inl e \<Rightarrow> None
                | Inr public_key \<Rightarrow> Some (SignOpen (raw @ canonical_message self) public_key))))"

text \<open>Documents as Python holds them, and equality of two documents field by field.\<close>

definition wf_TRC :: "TRC \<Rightarrow> bool" where
  "wf_TRC self =
     (distinct (map fst (core_isps self)) \<and> distinct (map fst (root_cas self))
      \<and> distinct (map fst (core_ads self)) \<and> wf_json (JObj (policies self))
      \<and> distinct (map fst (signatures self)))"

definition dict_equal :: "(string \<times> string) list \<Rightarrow> (string \<times> string) list \<Rightarrow> bool" where
  "dict_equal a b = json_equal (str_dict a) (str_dict b)"

definition TRC_equal :: "TRC \<Rightarrow> TRC \<Rightarrow> bool" where
  "TRC_equal a b =
     (isd_id a = isd_id b \<and> version a = version b \<and> time a = time b
      \<and> core_quorum a = core_quorum b \<and> trc_quorum a = trc_quorum b
      \<and> dict_equal (core_isps a) (core_isps b)
      \<and> dict_equal (root_cas a) (root_cas b)
      \<and> dict_equal (core_ads a) (core_ads b)
      \<and> json_equal (JObj (policies a)) (JObj (policies b))
      \<and> registry_server_addr a = registry_server_addr b
      \<and> registry_server_cert a = registry_server_cert b
      \<and> root_dns_server_addr a = root_dns_server_addr b
      \<and> root_dns_server_cert a = root_dns_server_cert b
      \<and> trc_server_addr a = trc_server_addr b
      \<and> dict_equal (signatures a) (signatures b))"

text \<open>
  A document for the evaluations: one core AD whose certificate carries the public key
  \<^verbatim>\<open>ABC\<close>, and its signature \<^verbatim>\<open>CBA\<close>, which the primitive of \<open>ref_lib\<close> accepts.
\<close>

definition example_trc :: TRC where
  "example_trc =
     from_values 1400000000 1 2 5 7
       [(''isp1'', ''aXNw'')] [(''ca1'', ''Y2E='')]
       [(''AD1'', ''eyJzdWJqZWN0X3B1Yl9rZXkiOiAiUVVKRCJ9'')]
       [(''ttl'', JInt 3600), (''flags'', JList [JBool True, JNull])]
       ''10.0.0.1'' ''cmVn'' ''10.0.0.2'' ''ZG5z'' ''10.0.0.3''
       [(''AD1'', ''Q0JB'')]"

text \<open>
  The canonical message of the example written out, line by line (the lines are joined
  by the newline character): the text Python's \<^verbatim>\<open>json.dumps\<close> gives for the fourteen
  fields with \<^verbatim>\<open>sort_keys=True\<close> and \<^verbatim>\<open>indent=4\<close>.
\<close>

definition example_message_lines :: "string list" where
  "example_message_lines =
     [''{'',
      ''    '' @ [CHR 0x22] @ ''core_ads'' @ [CHR 0x22] @ '': {'',
      ''        '' @ [CHR 0x22] @ ''AD1'' @ [CHR 0x22] @ '': '' @ [CHR 0x22] @ ''eyJzdWJqZWN0X3B1Yl9rZXkiOiAiUVVKRCJ9'' @ [CHR 0x22],
      ''    },'',
      ''    '' @ [CHR 0x22] @ ''core_isps'' @ [CHR 0x22] @ '': {'',
      ''        '' @ [CHR 0x22] @ ''isp1'' @ [CHR 0x22] @ '': '' @ [CHR 0x22] @ ''aXNw'' @ [CHR 0x22],
      ''    },'',
      ''    '' @ [CHR 0x22] @ ''core_quorum'' @ [CHR 0x22] @ '': 5,'',
      ''    '' @ [CHR 0x22] @ ''isd_id'' @ [CHR 0x22] @ '': 1,'',
      ''    '' @ [CHR 0x22] @ ''policies'' @ [CHR 0x22] @ '': {'',
      ''        '' @ [CHR 0x22] @ ''flags'' @ [CHR 0x22] @ '': ['',
      ''            true,'',
      ''            null'',
      ''        ],'',
      ''        '' @ [CHR 0x22] @ ''ttl'' @ [CHR 0x22] @ '': 3600'',
      ''    },'',
      ''    '' @ [CHR 0x22] @ ''registry_server_addr'' @ [CHR 0x22] @ '': '' @ [CHR 0x22] @ ''10.0.0.1'' @ [CHR 0x22] @ '','',
      ''    '' @ [CHR 0x22] @ ''registry_server_cert'' @ [CHR 0x22] @ '': '' @ [CHR 0x22] @ ''cmVn'' @ [CHR 0x22] @ '','',
      ''    '' @ [CHR 0x22] @ ''root_cas'' @ [CHR 0x22] @ '': {'',
      ''        '' @ [CHR 0x22] @ ''ca1'' @ [CHR 0x22] @ '': '' @ [CHR 0x22] @ ''Y2E='' @ [CHR 0x22],
      ''    },'',
      ''    '' @ [CHR 0x22] @ ''root_dns_server_addr'' @ [CHR 0x22] @ '': '' @ [CHR 0x22] @ ''10.0.0.2'' @ [CHR 0x22] @ '','',
      ''    '' @ [CHR 0x22] @ ''root_dns_server_cert'' @ [CHR 0x22] @ '': '' @ [CHR 0x22] @ ''ZG5z'' @ [CHR 0x22] @ '','',
      ''    '' @ [CHR 0x22] @ ''time'' @ [CHR 0x22] @ '': 1400000000,'',
      ''    '' @ [CHR 0x22] @ ''trc_quorum'' @ [CHR 0x22] @ '': 7,'',
      ''    '' @ [CHR 0x22] @ ''trc_server_addr'' @ [CHR 0x22] @ '': '' @ [CHR 0x22] @ ''10.0.0.3'' @ [CHR 0x22] @ '','',
      ''    '' @ [CHR 0x22] @ ''version'' @ [CHR 0x22] @ '': 2'',
      ''}'']"

fun joined_by_newline :: "string list \<Rightarrow> string" where
  "joined_by_newline [] = []"
| "joined_by_newline [line] = line"
| "joined_by_newline (line # lines) = line @ [CHR 0x0A] @ joined_by_newline lines"

definition example_message :: string where
  "example_message = joined_by_newline example_message_lines"





text \<open>The example with the policies in another order.\<close>

definition shuffled_trc :: TRC where
  "shuffled_trc =
     example_trc\<lparr>policies := [(''flags'', JList [JBool True, JNull]), (''ttl'', JInt 3600)]\<rparr>"



text \<open>
  And two whose certificate is broken: the JSON object without any field, and the same
  base64 text with its padding cut off.
\<close>

definition broken_cert_trc :: TRC where
  "broken_cert_trc = example_trc\<lparr>core_ads := [(''AD1'', ''e30='')]\<rparr>"

definition unpadded_cert_trc :: TRC where
  "unpadded_cert_trc = example_trc\<lparr>core_ads := [(''AD1'', ''e30'')]\<rparr>"

section \<open>The dumped text is ASCII\<close>

lemma is_ascii_simps [simp]:
  "is_ascii []"
  "is_ascii (c # s) = ((of_char c :: nat) < 128 \<and> is_ascii s)"
  "is_ascii (a @ b) = (is_ascii a \<and> is_ascii b)"
  by (simp_all add: is_ascii_def)

lemma hexdigit_ascii [simp]: "(of_char (hexdigit d) :: nat) < 128"
proof -
  have "hexdigit d \<in> set ''0123456789abcdef''"
    unfolding hexdigit_def by (rule nth_mem) simp
  then show ?thesis by auto
qed

lemma escape_char_ascii [simp]: "is_ascii (escape_char c)"
  by (simp add: escape_char_def hex4_def)

lemma encode_basestring_ascii_ascii [simp]: "is_ascii (encode_basestring_ascii s)"
  by (induction s) (simp_all add: encode_basestring_ascii_def)

lemma digits_ascii [simp]: "is_ascii (digits n)"
  by (induction n rule: digits.induct) (subst digits.simps, simp)

lemma int_repr_ascii [simp]: "is_ascii (int_repr i)"
  by (simp add: int_repr_def)

lemma newline_indent_ascii [simp]: "is_ascii (newline_indent n)"
  by (simp add: newline_indent_def is_ascii_def list_all_iff)

lemma join_ascii: "is_ascii sep \<Longrightarrow> list_all is_ascii xs \<Longrightarrow> is_ascii (join sep xs)"
  by (induction sep xs rule: join.induct) simp_all

lemma iterencode_ascii [simp]: "is_ascii (iterencode sk level v)"
proof (induction sk level v rule: iterencode.induct)
  case (5 sk level vs)
  then show ?case by (auto intro!: join_ascii simp: list_all_iff)
next
  case (6 sk level kvs)
  then show ?case by (auto intro!: join_ascii simp: list_all_iff)
qed simp_all

lemma encode_dumps [simp]: "encode_ascii (dumps sk v) = Inr (dumps sk v)"
  by (simp add: encode_ascii_def dumps_def)

section \<open>The verdict of \<^verbatim>\<open>verify\<close>\<close>

text \<open>
  C7. A document whose \<^verbatim>\<open>signatures\<close> dictionary is empty verifies: the loop body never
  runs, \<^verbatim>\<open>verify\<close> returns \<^verbatim>\<open>True\<close>, and it neither logs nor calls the primitive.
\<close>

theorem verify_empty_signatures:
  "signatures self = [] \<Longrightarrow> verify L self = (Inr True, [])"
  by (simp add: verify_def)

theorem verify_empty_signatures_witness:
  "signatures (example_trc\<lparr>signatures := []\<rparr>) = []
   \<and> verify (ref_lib []) (example_trc\<lparr>signatures := []\<rparr>) = (Inr True, [])"
  using verify_empty_signatures [of "example_trc\<lparr>signatures := []\<rparr>" "ref_lib []"]
  by simp

lemma verify_eq: "verify L self = verify_loop L self (data_to_verify self) (map fst (signatures self))"
  by (simp add: verify_def data_to_verify_def)

lemma get_public_key_present:
  "s \<in> set (map fst (core_ads self)) \<Longrightarrow> snd (get_public_key L self s) = []"
  by (simp add: get_public_key_def)

lemma verify_loop_True_iff:
  "fst (verify_loop L self (data_to_verify self) ss) = Inr True
   \<longleftrightarrow> list_all (signature_valid L self) ss"
proof (induction ss)
  case Nil
  show ?case by simp
next
  case (Cons s ss)
  show ?case
  proof (cases "s \<in> set (map fst (core_ads self))")
    case False
    then show ?thesis by (simp add: signature_valid_def)
  next
    case True
    obtain r evs where g: "get_public_key L self s = (r, evs)" by (cases "get_public_key L self s")
    show ?thesis
      using True Cons.IH g
      by (cases r; cases "sig_to_verify L self s")
         (auto simp: signature_valid_def split: option.splits)
  qed
qed

text \<open>
  C6. \<^verbatim>\<open>verify\<close> compares nothing with \<^verbatim>\<open>core_quorum\<close> or \<^verbatim>\<open>trc_quorum\<close>: it
  returns \<^verbatim>\<open>True\<close> exactly when every signature that is present is valid, whatever the
  number of signers and whatever the two thresholds.
\<close>

theorem verify_all_present_valid:
  "fst (verify L self) = Inr True
   \<longleftrightarrow> list_all (signature_valid L self) (map fst (signatures self))"
  by (simp add: verify_eq verify_loop_True_iff)

theorem verify_all_present_valid_witness:
  "core_quorum example_trc = 5 \<and> trc_quorum example_trc = 7
   \<and> length (signatures example_trc) = 1
   \<and> fst (verify (ref_lib []) example_trc) = Inr True
   \<and> list_all (signature_valid (ref_lib []) example_trc) (map fst (signatures example_trc))"
proof -
  have v: "fst (verify (ref_lib []) example_trc) = Inr True"
    by code_simp
  have q: "core_quorum example_trc = 5 \<and> trc_quorum example_trc = 7
      \<and> length (signatures example_trc) = 1"
    by (simp add: example_trc_def from_values_def)
  from v q show ?thesis
    using verify_all_present_valid [of "ref_lib []" example_trc] by blast
qed

lemma verify_loop_calls:
  "GetPublicKey s \<in> set (snd (verify_loop L self d ss)) \<Longrightarrow> s \<in> set (map fst (core_ads self)) \<and> s \<in> set ss"
proof (induction ss)
  case Nil
  then show ?case by simp
next
  case (Cons a ss)
  show ?case
  proof (cases "a \<in> set (map fst (core_ads self))")
    case False
    with Cons.prems show ?thesis by simp
  next
    case True
    obtain r evs where g: "get_public_key L self a = (r, evs)" by (cases "get_public_key L self a")
    have e: "evs = []" using get_public_key_present [OF True, of L] g by simp
    show ?thesis
      using True Cons g e
      by (cases r; cases "sig_to_verify L self a")
         (auto split: option.splits)
  qed
qed

lemma verify_loop_no_key_warning:
  "LogWarning ''The public key could not be found.'' \<notin> set (snd (verify_loop L self d ss))"
proof (induction ss)
  case Nil
  then show ?case by simp
next
  case (Cons a ss)
  show ?case
  proof (cases "a \<in> set (map fst (core_ads self))")
    case False
    then show ?thesis by simp
  next
    case True
    obtain r evs where g: "get_public_key L self a = (r, evs)" by (cases "get_public_key L self a")
    have e: "evs = []" using get_public_key_present [OF True, of L] g by simp
    show ?thesis
      using True Cons g e
      by (cases r; cases "sig_to_verify L self a")
         (auto split: option.splits)
  qed
qed

text \<open>
  C10. Inside \<^verbatim>\<open>verify\<close> the branch of \<^verbatim>\<open>get_public_key\<close> for a subject that is not in
  \<^verbatim>\<open>core_ads\<close> is never taken: every call \<^verbatim>\<open>verify\<close> makes has a signer that is in
  \<^verbatim>\<open>core_ads\<close>, such a call logs nothing, and the warning of that branch is not among the
  records \<^verbatim>\<open>verify\<close> leaves.
\<close>

theorem verify_calls_get_public_key_present:
  "(\<forall>s. GetPublicKey s \<in> set (snd (verify L self)) \<longrightarrow>
        s \<in> set (map fst (core_ads self)) \<and> s \<in> set (map fst (signatures self))
        \<and> snd (get_public_key L self s) = [])
   \<and> LogWarning ''The public key could not be found.'' \<notin> set (snd (verify L self))"
  using verify_loop_calls [of _ L self "data_to_verify self" "map fst (signatures self)"]
    verify_loop_no_key_warning [of L self "data_to_verify self" "map fst (signatures self)"]
    get_public_key_present [of _ self L]
  unfolding verify_eq by blast

theorem verify_calls_get_public_key_present_witness:
  "GetPublicKey ''AD1'' \<in> set (snd (verify (ref_lib []) example_trc))
   \<and> ''AD1'' \<in> set (map fst (core_ads example_trc))
   \<and> snd (get_public_key (ref_lib []) example_trc ''AD1'') = []
   \<and> LogWarning ''The public key could not be found.''
       \<notin> set (snd (verify (ref_lib []) example_trc))"
proof -
  have "GetPublicKey ''AD1'' \<in> set (snd (verify (ref_lib []) example_trc))"
    by code_simp
  then show ?thesis
    using verify_calls_get_public_key_present [of "ref_lib []" example_trc] by blast
qed













section \<open>\<^verbatim>\<open>get_public_key\<close>: what it returns and what it raises\<close>

lemma subscript_cases:
  "subscript v k = (case v of JObj kvs \<Rightarrow> getitem kvs k | _ \<Rightarrow> Inl TypeError)"
  by (cases v) simp_all

lemma encode_value_cases:
  "encode_value v = (case v of JStr s \<Rightarrow> encode_ascii s | _ \<Rightarrow> Inl AttributeError)"
  by (cases v) simp_all

text \<open>
  C4, as amended. For a subject that is not in \<^verbatim>\<open>core_ads\<close>, \<^verbatim>\<open>get_public_key\<close> logs a
  warning and returns the empty string: no failure is signalled. For a subject that is in
  \<^verbatim>\<open>core_ads\<close> it logs nothing; it returns the key when every layer of the certificate
  decodes, and otherwise raises the exception of the first layer that fails:
  \<^verbatim>\<open>UnicodeEncodeError\<close> for a blob that is not ASCII, \<^verbatim>\<open>binascii.Error\<close> for one that
  is not base64, \<^verbatim>\<open>UnicodeDecodeError\<close> for decoded bytes that are not ASCII,
  \<^verbatim>\<open>ValueError\<close> for a text that is not JSON, \<^verbatim>\<open>TypeError\<close> for a JSON value that is
  not an object, \<^verbatim>\<open>KeyError\<close> for an object without \<^verbatim>\<open>subject_pub_key\<close>,
  \<^verbatim>\<open>AttributeError\<close> for a field that is not a string, and for the string of the field
  again \<^verbatim>\<open>UnicodeEncodeError\<close> and \<^verbatim>\<open>binascii.Error\<close>.
\<close>

theorem get_public_key_outcomes:
  "(subject \<notin> set (map fst (core_ads self)) \<longrightarrow>
      get_public_key L self subject = (Inr [], [LogWarning ''The public key could not be found.'']))
   \<and> (subject \<in> set (map fst (core_ads self)) \<and> map_of (core_ads self) subject = Some blob \<longrightarrow>
        (\<not> is_ascii blob \<longrightarrow> get_public_key L self subject = (Inl UnicodeEncodeError, []))
      \<and> (is_ascii blob \<and> standard_b64decode L blob = None \<longrightarrow>
           get_public_key L self subject = (Inl BinasciiError, []))
      \<and> (is_ascii blob \<and> standard_b64decode L blob = Some raw \<longrightarrow>
           (\<not> is_ascii raw \<longrightarrow> get_public_key L self subject = (Inl UnicodeDecodeError, []))
         \<and> (is_ascii raw \<and> loads L raw = None \<longrightarrow>
              get_public_key L self subject = (Inl ValueError, []))
         \<and> (is_ascii raw \<and> loads L raw = Some cert \<longrightarrow>
              ((\<forall>kvs. cert \<noteq> JObj kvs) \<longrightarrow> get_public_key L self subject = (Inl TypeError, []))
            \<and> (cert = JObj kvs \<and> map_of kvs ''subject_pub_key'' = None \<longrightarrow>
                 get_public_key L self subject = (Inl (KeyError ''subject_pub_key''), []))
            \<and> (cert = JObj kvs \<and> map_of kvs ''subject_pub_key'' = Some field \<longrightarrow>
                 ((\<forall>k. field \<noteq> JStr k) \<longrightarrow>
                    get_public_key L self subject = (Inl AttributeError, []))
               \<and> (field = JStr k \<and> \<not> is_ascii k \<longrightarrow>
                    get_public_key L self subject = (Inl UnicodeEncodeError, []))
               \<and> (field = JStr k \<and> is_ascii k \<and> standard_b64decode L k = None \<longrightarrow>
                    get_public_key L self subject = (Inl BinasciiError, []))
               \<and> (field = JStr k \<and> is_ascii k \<and> standard_b64decode L k = Some key \<longrightarrow>
                    get_public_key L self subject = (Inr key, []))))))"
  by (auto simp: get_public_key_def bind_def or_raise_def getitem_def
        encode_ascii_def decode_ascii_def subscript_cases encode_value_cases
      split: option.splits json.splits)

theorem get_public_key_outcomes_witness:
  "''AD2'' \<notin> set (map fst (core_ads example_trc))
   \<and> get_public_key (ref_lib []) example_trc ''AD2''
       = (Inr [], [LogWarning ''The public key could not be found.''])
   \<and> map_of (core_ads example_trc) ''AD1'' = Some ''eyJzdWJqZWN0X3B1Yl9rZXkiOiAiUVVKRCJ9''
   \<and> get_public_key (ref_lib []) example_trc ''AD1'' = (Inr ''ABC'', [])
   \<and> map_of (core_ads broken_cert_trc) ''AD1'' = Some ''e30=''
   \<and> get_public_key (ref_lib []) broken_cert_trc ''AD1'' = (Inl (KeyError ''subject_pub_key''), [])
   \<and> map_of (core_ads unpadded_cert_trc) ''AD1'' = Some ''e30''
   \<and> get_public_key (ref_lib []) unpadded_cert_trc ''AD1'' = (Inl BinasciiError, [])"
proof -
  have a: "''AD2'' \<notin> set (map fst (core_ads example_trc))"
    by (simp add: example_trc_def from_values_def)
  have b: "''AD1'' \<in> set (map fst (core_ads example_trc))
      \<and> map_of (core_ads example_trc) ''AD1'' = Some ''eyJzdWJqZWN0X3B1Yl9rZXkiOiAiUVVKRCJ9''"
    by (simp add: example_trc_def from_values_def)
  have c: "is_ascii ''eyJzdWJqZWN0X3B1Yl9rZXkiOiAiUVVKRCJ9''
      \<and> standard_b64decode (ref_lib []) ''eyJzdWJqZWN0X3B1Yl9rZXkiOiAiUVVKRCJ9''
          = Some (''{'' @ [CHR 0x22] @ ''subject_pub_key'' @ [CHR 0x22] @ '': ''
                  @ [CHR 0x22] @ ''QUJD'' @ [CHR 0x22] @ ''}'')
      \<and> is_ascii (''{'' @ [CHR 0x22] @ ''subject_pub_key'' @ [CHR 0x22] @ '': ''
                  @ [CHR 0x22] @ ''QUJD'' @ [CHR 0x22] @ ''}'')
      \<and> loads (ref_lib []) (''{'' @ [CHR 0x22] @ ''subject_pub_key'' @ [CHR 0x22] @ '': ''
                  @ [CHR 0x22] @ ''QUJD'' @ [CHR 0x22] @ ''}'')
          = Some (JObj [(''subject_pub_key'', JStr ''QUJD'')])
      \<and> map_of [(''subject_pub_key'', JStr ''QUJD'')] ''subject_pub_key'' = Some (JStr ''QUJD'')
      \<and> is_ascii ''QUJD'' \<and> standard_b64decode (ref_lib []) ''QUJD'' = Some ''ABC''"
    by code_simp
  have d: "''AD1'' \<in> set (map fst (core_ads broken_cert_trc))
      \<and> map_of (core_ads broken_cert_trc) ''AD1'' = Some ''e30=''"
    by (simp add: broken_cert_trc_def)
  have e: "is_ascii ''e30='' \<and> standard_b64decode (ref_lib []) ''e30='' = Some ''{}''
      \<and> is_ascii ''{}'' \<and> loads (ref_lib []) ''{}'' = Some (JObj [])
      \<and> map_of ([] :: (string \<times> json) list) ''subject_pub_key'' = None"
    by code_simp
  have f: "''AD1'' \<in> set (map fst (core_ads unpadded_cert_trc))
      \<and> map_of (core_ads unpadded_cert_trc) ''AD1'' = Some ''e30''"
    by (simp add: unpadded_cert_trc_def)
  have g: "is_ascii ''e30'' \<and> standard_b64decode (ref_lib []) ''e30'' = None"
    by code_simp
  have "get_public_key (ref_lib []) example_trc ''AD2''
      = (Inr [], [LogWarning ''The public key could not be found.''])"
    using get_public_key_outcomes [of "''AD2''" example_trc "ref_lib []"] a by blast
  moreover have "get_public_key (ref_lib []) example_trc ''AD1'' = (Inr ''ABC'', [])"
    using get_public_key_outcomes
      [of "''AD1''" example_trc "ref_lib []" "''eyJzdWJqZWN0X3B1Yl9rZXkiOiAiUVVKRCJ9''"
          "''{'' @ [CHR 0x22] @ ''subject_pub_key'' @ [CHR 0x22] @ '': ''
             @ [CHR 0x22] @ ''QUJD'' @ [CHR 0x22] @ ''}''"
          "JObj [(''subject_pub_key'', JStr ''QUJD'')]" "[(''subject_pub_key'', JStr ''QUJD'')]"
          "JStr ''QUJD''" "''QUJD''" "''ABC''"]
      b c
    by blast
  moreover have "get_public_key (ref_lib []) broken_cert_trc ''AD1''
      = (Inl (KeyError ''subject_pub_key''), [])"
    using get_public_key_outcomes
      [of "''AD1''" broken_cert_trc "ref_lib []" "''e30=''" "''{}''" "JObj []" "[]"]
      d e
    by blast
  moreover have "get_public_key (ref_lib []) unpadded_cert_trc ''AD1'' = (Inl BinasciiError, [])"
    using get_public_key_outcomes [of "''AD1''" unpadded_cert_trc "ref_lib []" "''e30''"] f g
    by blast
  ultimately show ?thesis
    using a b d f by blast
qed

text \<open>
  C4 as it stands fails: the subject \<^verbatim>\<open>AD2\<close> is in no certificate of the document, and
  the call returns a value, the empty string.
\<close>

theorem get_public_key_absent_counterexample:
  "get_public_key (ref_lib []) example_trc ''AD2''
   = (Inr [], [LogWarning ''The public key could not be found.''])"
  by code_simp

section \<open>\<^verbatim>\<open>parse\<close>\<close>

text \<open>
  C5 says that a source that lacks a required key makes \<^verbatim>\<open>parse\<close> log, raise nothing and
  leave every field empty. The code does not: on the file \<^verbatim>\<open>{"isd_id": 7}\<close> it raises
  \<^verbatim>\<open>KeyError\<close> for \<^verbatim>\<open>version\<close>, logs nothing, and \<^verbatim>\<open>isd_id\<close> is already 7.
\<close>

theorem parse_missing_key_raises:
  "parse (ref_lib [(''trc.json'', [CHR ''{'', CHR 0x22, CHR ''i'', CHR ''s'', CHR ''d'', CHR ''_'',
        CHR ''i'', CHR ''d'', CHR 0x22, CHR '':'', CHR '' '', CHR ''7'', CHR ''}''])])
     ''trc.json'' empty_TRC
   = (Raised (KeyError ''version''), empty_TRC\<lparr>isd_id := 7\<rparr>, [])"
  by code_simp

section \<open>The canonical serialisation\<close>

lemma insort_key_map_fst:
  assumes "\<And>x. fst (g x) = fst x"
  shows "insort_key fst (g x) (map g xs) = map g (insort_key fst x xs)"
  by (induction xs) (simp_all add: assms)

lemma sort_key_map_fst:
  assumes "\<And>x. fst (g x) = fst x"
  shows "sort_key fst (map g xs) = map g (sort_key fst xs)"
  by (induction xs) (simp_all add: insort_key_map_fst [OF assms])

lemma iterencode_sort_json:
  "iterencode True level v = iterencode False level (sort_json v)"
proof (induction v arbitrary: level rule: sort_json.induct)
  case (5 vs)
  then show ?case by (simp add: comp_def cong: map_cong)
next
  case (6 kvs)
  define item where
    "item sk kv = encode_basestring_ascii (fst kv) @ '': '' @ iterencode sk (Suc level) (snd kv)"
    for sk and kv :: "string \<times> json"
  define g :: "string \<times> json \<Rightarrow> string \<times> json" where
    "g = (\<lambda>kv. (fst kv, sort_json (snd kv)))"
  have enc: "iterencode sk level (JObj xs) =
      (if xs = [] then ''{}''
       else ''{'' @ newline_indent (Suc level)
            @ join (CHR '','' # newline_indent (Suc level))
                (map (item sk) (if sk then sort_key fst xs else xs))
            @ newline_indent level @ ''}'')" for sk xs
    unfolding item_def by simp
  have s: "sort_key fst (map g kvs) = map g (sort_key fst kvs)"
    by (rule sort_key_map_fst) (simp add: g_def)
  have "item True kv = item False (g kv)" if "kv \<in> set kvs" for kv
    using 6 [OF that] by (simp add: item_def g_def)
  then have m: "map (item True) (sort_key fst kvs) = map (item False) (sort_key fst (map g kvs))"
    by (simp add: s)
  have e: "sort_key fst (map g kvs) = [] \<longleftrightarrow> kvs = []"
    by (simp add: s) (metis length_sort length_0_conv)
  have "iterencode False level (sort_json (JObj kvs))
      = iterencode False level (JObj (sort_key fst (map g kvs)))"
    by (simp only: sort_json.simps g_def)
  also have "\<dots> = iterencode True level (JObj kvs)"
    unfolding enc by (simp only: e m if_True if_False)
  finally show ?case by simp
qed simp_all

lemma sorted_distinct_fst_unique:
  fixes xs ys :: "(string \<times> 'a) list"
  assumes "distinct (map fst xs)" "distinct (map fst ys)" "set xs = set ys"
  shows "sort_key fst xs = sort_key fst ys"
proof (rule map_sorted_distinct_set_unique [where f = fst])
  show "inj_on fst (set (sort_key fst xs) \<union> set (sort_key fst ys))"
    using assms by (simp add: distinct_map)
  have d: "distinct (map fst (sort_key fst zs))" if "distinct (map fst zs)"
    for zs :: "(string \<times> 'a) list"
    using that by (simp add: distinct_map)
  show "distinct (map fst (sort_key fst xs))" "distinct (map fst (sort_key fst ys))"
    using assms d by blast+
  show "sorted (map fst (sort_key fst xs))" "sorted (map fst (sort_key fst ys))"
    by simp_all
  show "set (sort_key fst xs) = set (sort_key fst ys)"
    using assms by simp
qed

lemma same_keys:
  fixes xs :: "(string \<times> 'a) list" and ys :: "(string \<times> 'b) list"
  assumes "distinct (map fst xs)" "distinct (map fst ys)" "length xs = length ys"
    and "\<And>kv. kv \<in> set xs \<Longrightarrow> map_of ys (fst kv) \<noteq> None"
  shows "fst ` set xs = fst ` set ys"
proof (rule card_subset_eq)
  show "finite (fst ` set ys)" by simp
  show "fst ` set xs \<subseteq> fst ` set ys"
    using assms(4) by (auto simp: map_of_eq_None_iff)
  have "card (fst ` set xs) = length xs"
    using assms(1) distinct_card [of "map fst xs"] by simp
  moreover have "card (fst ` set ys) = length ys"
    using assms(2) distinct_card [of "map fst ys"] by simp
  ultimately show "card (fst ` set xs) = card (fst ` set ys)"
    using assms(3) by simp
qed

lemma json_equal_sort_json:
  "wf_json v \<Longrightarrow> wf_json w \<Longrightarrow> json_equal v w \<Longrightarrow> sort_json v = sort_json w"
proof (induction v arbitrary: w rule: sort_json.induct)
  case (5 vs)
  from "5.prems"(3) obtain ws where w: "w = JList ws" and len: "length vs = length ws"
    and eq: "\<forall>p \<in> set (zip vs ws). json_equal (fst p) (snd p)"
    by (cases w) auto
  have "sort_json (vs ! i) = sort_json (ws ! i)" if "i < length vs" for i
  proof -
    have m: "vs ! i \<in> set vs" "ws ! i \<in> set ws"
      using that len by simp_all
    have "(vs ! i, ws ! i) \<in> set (zip vs ws)"
      using that len by (auto simp: set_zip)
    then have "json_equal (vs ! i) (ws ! i)"
      using eq by auto
    moreover have "wf_json (vs ! i)" "wf_json (ws ! i)"
      using "5.prems"(1,2) m w by auto
    ultimately show ?thesis
      using "5.IH" [OF m(1)] by blast
  qed
  then have "map sort_json vs = map sort_json ws"
    using len by (simp add: list_eq_iff_nth_eq)
  then show ?case by (simp add: w)
next
  case (6 kvs)
  from "6.prems"(3) obtain kws where w: "w = JObj kws" and len: "length kvs = length kws"
    and eq: "\<forall>kv \<in> set kvs.
      case map_of kws (fst kv) of None \<Rightarrow> False | Some y \<Rightarrow> json_equal (snd kv) y"
    by (cases w) auto
  have dv: "distinct (map fst kvs)" and dw: "distinct (map fst kws)"
    using "6.prems"(1,2) w by simp_all
  define g :: "string \<times> json \<Rightarrow> string \<times> json" where
    "g = (\<lambda>kv. (fst kv, sort_json (snd kv)))"
  have look: "\<exists>y. map_of kws (fst kv) = Some y \<and> json_equal (snd kv) y" if "kv \<in> set kvs" for kv
    using eq that by (auto split: option.splits)
  have "map_of kws (fst kv) \<noteq> None" if "kv \<in> set kvs" for kv
    using look [OF that] by auto
  then have keys: "fst ` set kvs = fst ` set kws"
    by (rule same_keys [OF dv dw len])
  have step: "g kv = g (fst kv, y)"
    if "kv \<in> set kvs" "map_of kws (fst kv) = Some y" for kv y
  proof -
    have in_w: "(fst kv, y) \<in> set kws"
      using that(2) by (rule map_of_SomeD)
    have "json_equal (snd kv) y"
      using look [OF that(1)] that(2) by simp
    moreover have "wf_json (snd kv)" "wf_json y"
      using "6.prems"(1,2) w that(1) in_w by auto
    ultimately have "sort_json (snd kv) = sort_json y"
      using "6.IH" [OF that(1)] by blast
    then show ?thesis by (simp add: g_def)
  qed
  have "set (map g kvs) = set (map g kws)"
  proof (intro equalityI subsetI)
    fix x assume "x \<in> set (map g kvs)"
    then obtain kv where kv: "kv \<in> set kvs" "x = g kv" by auto
    from look [OF kv(1)] obtain y where y: "map_of kws (fst kv) = Some y" by blast
    then have "(fst kv, y) \<in> set kws" by (rule map_of_SomeD)
    then show "x \<in> set (map g kws)"
      using step [OF kv(1) y] kv(2) by auto
  next
    fix x assume "x \<in> set (map g kws)"
    then obtain kw where kw: "kw \<in> set kws" "x = g kw" by auto
    then have "fst kw \<in> fst ` set kvs"
      using keys by auto
    then obtain kv where kv: "kv \<in> set kvs" "fst kv = fst kw" by auto
    have "map_of kws (fst kv) = Some (snd kw)"
      using dw kw(1) kv(2) by simp
    then have "g kv = g (fst kv, snd kw)"
      using step [OF kv(1)] by blast
    then have "x = g kv"
      using kv(2) kw(2) by simp
    then show "x \<in> set (map g kvs)"
      using kv(1) by simp
  qed
  moreover have fg: "fst \<circ> g = fst"
    by (simp add: g_def comp_def)
  ultimately have "sort_key fst (map g kvs) = sort_key fst (map g kws)"
    using dv dw by (intro sorted_distinct_fst_unique) (simp_all add: fg)
  then show ?case
    by (simp add: w g_def)
qed (auto)

lemma json_equal_dumps:
  "wf_json v \<Longrightarrow> wf_json w \<Longrightarrow> json_equal v w \<Longrightarrow> dumps True v = dumps True w"
  using json_equal_sort_json [of v w] by (simp add: dumps_def iterencode_sort_json)

lemma keys_sorted_sort_json: "keys_sorted (sort_json v)"
  by (induction v rule: sort_json.induct) auto

lemma wf_str_dict [simp]: "wf_json (str_dict kvs) = distinct (map fst kvs)"
  by (auto simp: str_dict_def comp_def)

lemma wf_get_trc_dict: "wf_TRC self \<Longrightarrow> wf_json (get_trc_dict self ws)"
  by (simp add: get_trc_dict_def wf_TRC_def)

lemma json_equal_get_trc_dict:
  "TRC_equal a b \<Longrightarrow> json_equal (get_trc_dict a ws) (get_trc_dict b ws)"
  by (simp add: get_trc_dict_def TRC_equal_def dict_equal_def)

text \<open>
  C8. Two documents with the same value in every field have the same canonical
  serialisation, byte for byte, whatever the iteration order of their dictionaries: both
  the message of \<^verbatim>\<open>verify\<close> and the text of \<^verbatim>\<open>__str__\<close>.
\<close>

theorem canonical_serialization_deterministic:
  "wf_TRC a \<Longrightarrow> wf_TRC b \<Longrightarrow> TRC_equal a b \<Longrightarrow>
   data_to_verify a = data_to_verify b \<and> to_str a = to_str b"
  unfolding data_to_verify_def to_str_def
  by (intro conjI json_equal_dumps wf_get_trc_dict json_equal_get_trc_dict)

theorem canonical_serialization_deterministic_witness:
  "wf_TRC example_trc \<and> wf_TRC shuffled_trc \<and> TRC_equal example_trc shuffled_trc
   \<and> policies example_trc \<noteq> policies shuffled_trc
   \<and> data_to_verify example_trc = data_to_verify shuffled_trc
   \<and> to_str example_trc = to_str shuffled_trc"
proof -
  have a: "wf_TRC example_trc"
    by code_simp
  have b: "wf_TRC shuffled_trc"
    by code_simp
  have c: "TRC_equal example_trc shuffled_trc"
    by code_simp
  have d: "policies example_trc \<noteq> policies shuffled_trc"
    by (simp add: example_trc_def shuffled_trc_def from_values_def)
  show ?thesis
    using canonical_serialization_deterministic [OF a b c] a b c d by blast
qed

lemma newline_indent_indentation: "newline_indent level = CHR 0x0A # indentation level"
  by (simp add: newline_indent_def indentation_def)

lemma join_comma_separated:
  "xs \<noteq> [] \<Longrightarrow>
   sep @ join (CHR '','' # sep) xs = comma_separated (map (\<lambda>x. sep @ x) xs)"
  by (induction "CHR '','' # sep" xs rule: join.induct) simp_all

lemma iterencode_canonical_text: "iterencode False level v = canonical_text level v"
proof (induction level v rule: canonical_text.induct)
  case (5 depth vs)
  show ?case
  proof (cases "vs = []")
    case True
    then show ?thesis by simp
  next
    case False
    have m: "map (iterencode False (Suc depth)) vs = map (canonical_text (Suc depth)) vs"
      using 5 False by simp
    have "newline_indent (Suc depth)
          @ join (CHR '','' # newline_indent (Suc depth)) (map (canonical_text (Suc depth)) vs)
        = comma_separated
            (map (\<lambda>x. newline_indent (Suc depth) @ x) (map (canonical_text (Suc depth)) vs))"
      using False by (intro join_comma_separated) simp
    then show ?thesis
      using False by (simp add: m comp_def newline_indent_indentation)
  qed
next
  case (6 depth kvs)
  define item :: "(nat \<Rightarrow> json \<Rightarrow> string) \<Rightarrow> string \<times> json \<Rightarrow> string" where
    "item = (\<lambda>f kv. encode_basestring_ascii (fst kv) @ '': '' @ f (Suc depth) (snd kv))"
  show ?case
  proof (cases "kvs = []")
    case True
    then show ?thesis by simp
  next
    case False
    have m: "map (item (iterencode False)) kvs = map (item canonical_text) kvs"
      using 6 False by (simp add: item_def)
    have j: "newline_indent (Suc depth)
          @ join (CHR '','' # newline_indent (Suc depth)) (map (item canonical_text) kvs)
        = comma_separated
            (map (\<lambda>x. newline_indent (Suc depth) @ x) (map (item canonical_text) kvs))"
      using False by (intro join_comma_separated) simp
    have "iterencode False depth (JObj kvs)
        = ''{'' @ (newline_indent (Suc depth)
            @ join (CHR '','' # newline_indent (Suc depth)) (map (item (iterencode False)) kvs))
          @ newline_indent depth @ ''}''"
      using False by (simp add: item_def)
    also have "\<dots> = ''{''
          @ comma_separated
              (map (\<lambda>x. newline_indent (Suc depth) @ x) (map (item canonical_text) kvs))
          @ newline_indent depth @ ''}''"
      by (simp only: m j)
    also have "\<dots> = canonical_text depth (JObj kvs)"
      using False by (simp add: item_def comp_def newline_indent_indentation)
    finally show ?thesis .
  qed
qed simp_all

lemma get_trc_dict_unsigned: "get_trc_dict self False = JObj (unsigned_fields self)"
  by (simp add: get_trc_dict_def unsigned_fields_def str_dict_def certificates_def)

lemma data_to_verify_canonical: "data_to_verify self = canonical_message self"
  unfolding data_to_verify_def canonical_message_def canonical_document_def dumps_def
    get_trc_dict_unsigned
  by (simp only: iterencode_sort_json iterencode_canonical_text)

lemma top_keys_canonical:
  "top_keys (canonical_document self) =
     [''core_ads'', ''core_isps'', ''core_quorum'', ''isd_id'', ''policies'',
      ''registry_server_addr'', ''registry_server_cert'', ''root_cas'',
      ''root_dns_server_addr'', ''root_dns_server_cert'', ''time'', ''trc_quorum'',
      ''trc_server_addr'', ''version'']"
  by (simp add: canonical_document_def unsigned_fields_def)

section \<open>What \<^verbatim>\<open>verify\<close> submits to the primitive\<close>

lemma sig_to_verify_Inr:
  "sig_to_verify L self s = Inr raw \<Longrightarrow>
   \<exists>t. map_of (signatures self) s = Some t \<and> standard_b64decode L t = Some raw"
  by (auto simp: sig_to_verify_def bind_def or_raise_def getitem_def encode_ascii_def
      split: option.splits if_splits)

lemma submission_eq:
  "sig_to_verify L self s = Inr raw \<Longrightarrow> fst (get_public_key L self s) = Inr key \<Longrightarrow>
   submission L self s = Some (SignOpen (raw @ data_to_verify self) key)"
  using sig_to_verify_Inr [of L self s raw]
  by (auto simp: submission_def data_to_verify_canonical)

lemma verify_loop_submitted:
  "SignOpen blob key \<in> set (snd (verify_loop L self d ss)) \<Longrightarrow>
   \<exists>s \<in> set ss. \<exists>raw. sig_to_verify L self s = Inr raw
      \<and> fst (get_public_key L self s) = Inr key \<and> blob = raw @ d"
proof (induction ss)
  case Nil
  then show ?case by simp
next
  case (Cons a ss)
  show ?case
  proof (cases "a \<in> set (map fst (core_ads self))")
    case False
    with Cons.prems show ?thesis by simp
  next
    case True
    obtain r evs where g: "get_public_key L self a = (r, evs)" by (cases "get_public_key L self a")
    have e: "evs = []" using get_public_key_present [OF True, of L] g by simp
    show ?thesis
      using True Cons g e
      by (cases r; cases "sig_to_verify L self a")
         (auto split: option.splits)
  qed
qed

lemma verify_loop_all_submitted:
  "fst (verify_loop L self d ss) = Inr True \<Longrightarrow>
   \<forall>s \<in> set ss. \<exists>raw key. sig_to_verify L self s = Inr raw
      \<and> fst (get_public_key L self s) = Inr key
      \<and> SignOpen (raw @ d) key \<in> set (snd (verify_loop L self d ss))"
proof (induction ss)
  case Nil
  then show ?case by simp
next
  case (Cons a ss)
  show ?case
  proof (cases "a \<in> set (map fst (core_ads self))")
    case False
    with Cons.prems show ?thesis by simp
  next
    case True
    obtain r evs where g: "get_public_key L self a = (r, evs)" by (cases "get_public_key L self a")
    show ?thesis
      using True Cons g
      by (cases r; cases "sig_to_verify L self a")
         (auto split: option.splits)
  qed
qed

text \<open>
  C1. Every byte string \<^verbatim>\<open>verify\<close> submits to the primitive is, for some signer of the
  signatures dictionary, the base64-decoded signature of that signer followed by the
  canonical message, submitted with the key of that signer; when \<^verbatim>\<open>verify\<close> returns
  \<^verbatim>\<open>True\<close> it has submitted one for every signer. The canonical message is the one of
  the specification (\<open>canonical_message\<close>: the fourteen fields without the signatures,
  keys sorted at every level, four spaces for each level of nesting); it is ASCII.
\<close>

theorem verify_submits_signature_then_message:
  "(\<forall>blob key. SignOpen blob key \<in> set (snd (verify L self)) \<longrightarrow>
       (\<exists>signer \<in> set (map fst (signatures self)).
          submission L self signer = Some (SignOpen blob key)))
   \<and> (fst (verify L self) = Inr True \<longrightarrow>
        (\<forall>signer \<in> set (map fst (signatures self)).
           \<exists>ev \<in> set (snd (verify L self)). submission L self signer = Some ev))
   \<and> is_ascii (canonical_message self)
   \<and> keys_sorted (canonical_document self)
   \<and> ''signatures'' \<notin> set (top_keys (canonical_document self))"
proof (intro conjI allI impI)
  fix blob key
  assume "SignOpen blob key \<in> set (snd (verify L self))"
  then obtain s raw where "s \<in> set (map fst (signatures self))"
    "sig_to_verify L self s = Inr raw" "fst (get_public_key L self s) = Inr key"
    "blob = raw @ data_to_verify self"
    unfolding verify_eq using verify_loop_submitted by blast
  then show "\<exists>signer \<in> set (map fst (signatures self)).
      submission L self signer = Some (SignOpen blob key)"
    using submission_eq by blast
next
  assume "fst (verify L self) = Inr True"
  then have "\<forall>s \<in> set (map fst (signatures self)). \<exists>raw key. sig_to_verify L self s = Inr raw
      \<and> fst (get_public_key L self s) = Inr key
      \<and> SignOpen (raw @ data_to_verify self) key \<in> set (snd (verify L self))"
    unfolding verify_eq by (rule verify_loop_all_submitted)
  then show "\<forall>signer \<in> set (map fst (signatures self)).
      \<exists>ev \<in> set (snd (verify L self)). submission L self signer = Some ev"
    using submission_eq by metis
next
  show "is_ascii (canonical_message self)"
    using data_to_verify_canonical [of self, symmetric]
    by (simp add: data_to_verify_def dumps_def)
  show "keys_sorted (canonical_document self)"
    by (simp add: canonical_document_def keys_sorted_sort_json)
  show "''signatures'' \<notin> set (top_keys (canonical_document self))"
    by (simp add: top_keys_canonical)
qed

theorem verify_submits_signature_then_message_witness:
  "SignOpen (''CBA'' @ canonical_message example_trc) ''ABC''
     \<in> set (snd (verify (ref_lib []) example_trc))
   \<and> submission (ref_lib []) example_trc ''AD1''
       = Some (SignOpen (''CBA'' @ canonical_message example_trc) ''ABC'')
   \<and> fst (verify (ref_lib []) example_trc) = Inr True
   \<and> canonical_message example_trc = example_message"
proof -
  have p: "canonical_message example_trc = example_message"
    by code_simp
  have a: "SignOpen (''CBA'' @ canonical_message example_trc) ''ABC''
      \<in> set (snd (verify (ref_lib []) example_trc))"
    by code_simp
  have b: "fst (verify (ref_lib []) example_trc) = Inr True"
    by code_simp
  have c: "set (map fst (signatures example_trc)) = {''AD1''}"
    by (simp add: example_trc_def from_values_def)
  from a have "\<exists>signer \<in> set (map fst (signatures example_trc)).
      submission (ref_lib []) example_trc signer
        = Some (SignOpen (''CBA'' @ canonical_message example_trc) ''ABC'')"
    using verify_submits_signature_then_message [of "ref_lib []" example_trc] by blast
  with c have "submission (ref_lib []) example_trc ''AD1''
      = Some (SignOpen (''CBA'' @ canonical_message example_trc) ''ABC'')"
    by simp
  with a b p show ?thesis by blast
qed

section \<open>From \<^verbatim>\<open>from_values\<close> through \<^verbatim>\<open>__str__\<close> back to \<^verbatim>\<open>parse\<close>\<close>

lemma as_int_equal: "json_equal (JInt i) y \<Longrightarrow> as_int y = Some i"
  by simp

lemma as_str_equal: "json_equal (JStr s) y \<Longrightarrow> as_str y = Some s"
  by simp










end
